theory Spec2Isabelle
  imports Main
begin

section \<open>JavaScript strings\<close>

text \<open>
  A JavaScript string is modelled by the UTF-8 bytes of its text, as a \<^typ>\<open>string\<close>.
  ASCII text is written as a literal; every other character is written as its bytes
  (the ideograph U+7E23 is \<open>[CHR 0xE7, CHR 0xB8, CHR 0xA3]\<close>). UTF-8 is
  self-synchronising, so one well-formed text occurs in another at a character boundary
  exactly when its bytes occur in the other's bytes: \<open>includes\<close>, \<open>replace\<close>
  and \<open>===\<close> on the bytes agree with JavaScript's on the text.
\<close>

fun startsWith :: "string \<Rightarrow> string \<Rightarrow> bool" where
  "startsWith s [] = True"
| "startsWith [] (p # ps) = False"
| "startsWith (c # s) (p # ps) = (c = p \<and> startsWith s ps)"

text \<open>\<open>s.includes(t)\<close>: \<open>t\<close> occurs somewhere in \<open>s\<close>.\<close>

fun includes_js :: "string \<Rightarrow> string \<Rightarrow> bool" where
  "includes_js [] t = (t = [])"
| "includes_js (c # s) t = (startsWith (c # s) t \<or> includes_js s t)"

text \<open>
  \<open>s.replace(pat, rep)\<close> with a string pattern: the first occurrence of \<open>pat\<close> is
  replaced, a string without an occurrence is returned as it is. The replacement is
  taken literally: the two replacement words of the source hold no \<open>$\<close> pattern.
\<close>

fun replace_js :: "string \<Rightarrow> string \<Rightarrow> string \<Rightarrow> string" where
  "replace_js [] pat rep = (if pat = [] then rep else [])"
| "replace_js (c # s) pat rep =
     (if startsWith (c # s) pat then rep @ drop (length pat) (c # s)
      else c # replace_js s pat rep)"

text \<open>
  \<open>s.toLowerCase()\<close>: the letters A to Z are mapped to a to z and every other byte is
  kept. This is JavaScript's result on every text made of ASCII characters and of
  characters without a lower-case mapping, such as the ideographs of the configured
  names; texts with other cased letters are outside this model.
\<close>

definition lower_char :: "char \<Rightarrow> char" where
  "lower_char c =
     (let n = (of_char c :: nat) in if 65 \<le> n \<and> n \<le> 90 then char_of (n + 32) else c)"

definition toLowerCase :: "string \<Rightarrow> string" where
  "toLowerCase s = map lower_char s"

section \<open>JSON values\<close>

text \<open>
  The values an HTTP body carries. An object is the list of its members in insertion
  order, with distinct keys. Numbers are kept as integers: the only thing the modelled
  code asks of a number is whether it is truthy, and zero is the falsy one.
\<close>

datatype json =
    JNull
  | JBool bool
  | JNum int
  | JStr string
  | JArr "json list"
  | JObj "(string \<times> json) list"

section \<open>Errors\<close>

text \<open>
  A thrown error, by the two fields the route's \<open>catch\<close> block reads: \<open>error.message\<close>
  and \<open>error.response\<close>, which only the HTTP client's errors carry (the upstream's
  status code and body).
\<close>

record UpstreamReply =
  status :: nat
  data :: json

record js_error =
  message :: string
  response :: "UpstreamReply option"

text \<open>\<open>new Error(msg)\<close>\<close>

definition Error :: "string \<Rightarrow> js_error" where
  "Error msg = \<lparr>message = msg, response = None\<rparr>"

text \<open>
  The TypeError of reading property \<open>prop\<close> of \<open>undefined\<close> or \<open>null\<close>, with
  the message the V8 engine gives it.
\<close>

definition TypeError :: "string \<Rightarrow> string \<Rightarrow> js_error" where
  "TypeError what prop =
     Error (''Cannot read properties of '' @ what @ '' (reading '' @ [CHR 0x27] @ prop
            @ [CHR 0x27] @ '')'')"

section \<open>The upstream payload and the normalised forecast\<close>

text \<open>
  The payload of dataset F-C0032-001, in the shape the code reads:
  \<open>{records: {datasetDescription, issueTime, location: [{locationName, weatherElement:
  [{elementName, time: [{startTime, endTime, parameter: {parameterName}}]}]}]}}\<close>.
  The body is JSON from outside that no code validates, so the members the code reads
  a property of without a test may be missing: a slot's \<open>parameter\<close>, the body's
  \<open>records\<close> and the \<open>location\<close> of the records are optional, \<open>None\<close> standing
  for a member that is not there (\<open>undefined\<close> when read).
\<close>

record Parameter =
  parameterName :: string

record TimeSlot =
  startTime :: string
  endTime :: string
  parameter :: "Parameter option"

record WeatherElement =
  elementName :: string
  time :: "TimeSlot list"

record LocalityBlock =
  locationName :: string
  weatherElement :: "WeatherElement list"

record UpstreamRecords =
  datasetDescription :: string
  issueTime :: string
  location :: "LocalityBlock list option"

record UpstreamEnvelope =
  records :: "UpstreamRecords option"

text \<open>The object built for one time window (lines 71 to 80 of server.js).\<close>

record ForecastRecord =
  startTime :: string
  endTime :: string
  weather :: string
  rain :: string
  minTemp :: string
  maxTemp :: string
  comfort :: string
  windSpeed :: string

text \<open>\<open>weatherData\<close> (lines 58 to 63).\<close>

record WeatherResponse =
  city :: string
  datasetDescription :: string
  dataUpdateTime :: string
  forecasts :: "ForecastRecord list"

text \<open>The degree sign U+00B0 followed by C.\<close>

definition degC :: string where
  "degC = [CHR 0xC2, CHR 0xB0] @ ''C''"

text \<open>The names the \<open>switch\<close> of lines 84 to 104 lists.\<close>

definition recognised :: "string \<Rightarrow> bool" where
  "recognised n = (n = ''Wx'' \<or> n = ''PoP'' \<or> n = ''MinT'' \<or> n = ''MaxT'' \<or> n = ''CI'')"

text \<open>
  \<open>value.parameterName\<close> (lines 86, 89, 92, 95 and 98): reading the property of a
  \<open>parameter\<close> that is not there throws.
\<close>

definition read_parameterName :: "Parameter option \<Rightarrow> js_error + string" where
  "read_parameterName v =
     (case v of
        None \<Rightarrow> Inl (TypeError ''undefined'' ''parameterName'')
      | Some p \<Rightarrow> Inr (parameterName p))"

text \<open>
  The body of \<open>weatherElements.forEach\<close> (lines 83 to 104) for slot \<open>i\<close>:
  \<open>element.time[i].parameter\<close> is read first, for an element of any name, and
  reading \<open>parameter\<close> of a missing slot throws. The \<open>switch\<close> then reads
  \<open>value.parameterName\<close> and writes one field of the forecast, or does neither for a
  name it does not list.
\<close>

definition apply_element :: "nat \<Rightarrow> ForecastRecord \<Rightarrow> WeatherElement \<Rightarrow> js_error + ForecastRecord" where
  "apply_element i forecast element =
     (if i < length (time element) then
        let v = parameter (time element ! i) in
        if elementName element = ''Wx'' then
          map_sum id (\<lambda>n. forecast\<lparr>weather := n\<rparr>) (read_parameterName v)
        else if elementName element = ''PoP'' then
          map_sum id (\<lambda>n. forecast\<lparr>rain := n @ ''%''\<rparr>) (read_parameterName v)
        else if elementName element = ''MinT'' then
          map_sum id (\<lambda>n. forecast\<lparr>minTemp := n @ degC\<rparr>) (read_parameterName v)
        else if elementName element = ''MaxT'' then
          map_sum id (\<lambda>n. forecast\<lparr>maxTemp := n @ degC\<rparr>) (read_parameterName v)
        else if elementName element = ''CI'' then
          map_sum id (\<lambda>n. forecast\<lparr>comfort := n\<rparr>) (read_parameterName v)
        else Inr forecast
      else Inl (TypeError ''undefined'' ''parameter''))"

text \<open>\<open>weatherElements.forEach\<close>: the elements in order, stopping at the first throw.\<close>

fun forEach_element :: "nat \<Rightarrow> WeatherElement list \<Rightarrow> ForecastRecord \<Rightarrow> js_error + ForecastRecord" where
  "forEach_element i [] forecast = Inr forecast"
| "forEach_element i (element # rest) forecast =
     (case apply_element i forecast element of
        Inl e \<Rightarrow> Inl e
      | Inr forecast' \<Rightarrow> forEach_element i rest forecast')"

text \<open>
  One turn of the \<open>for\<close> loop (lines 71 to 105): the forecast is seeded from slot \<open>i\<close>
  of \<open>weatherElements[0]\<close>, then every element writes its field.
\<close>

definition make_forecast :: "WeatherElement list \<Rightarrow> nat \<Rightarrow> js_error + ForecastRecord" where
  "make_forecast weatherElements i =
     (case weatherElements of
        [] \<Rightarrow> Inl (TypeError ''undefined'' ''time'')
      | first # _ \<Rightarrow>
          if i < length (time first) then
            forEach_element i weatherElements
              \<lparr>ForecastRecord.startTime = TimeSlot.startTime (time first ! i),
               endTime = TimeSlot.endTime (time first ! i),
               weather = '''', rain = '''', minTemp = '''', maxTemp = '''', comfort = '''',
               windSpeed = ''''\<rparr>
          else Inl (TypeError ''undefined'' ''startTime''))"

text \<open>
  \<open>for (let i = 0; i < timeCount; i++) { ...; weatherData.forecasts.push(forecast) }\<close>,
  with the forecasts pushed so far as the accumulator.
\<close>

function forecast_loop :: "WeatherElement list \<Rightarrow> nat \<Rightarrow> nat \<Rightarrow> ForecastRecord list \<Rightarrow> js_error + ForecastRecord list" where
  "forecast_loop weatherElements timeCount i acc =
     (if i < timeCount then
        (case make_forecast weatherElements i of
           Inl e \<Rightarrow> Inl e
         | Inr forecast \<Rightarrow> forecast_loop weatherElements timeCount (Suc i) (acc @ [forecast]))
      else Inr acc)"
  by pat_completeness auto
termination
  by (relation "measure (\<lambda>(weatherElements, timeCount, i, acc). timeCount - i)") auto

declare forecast_loop.simps [simp del]

text \<open>
  Lines 57 to 110 of \<open>getWeatherByLocation\<close>: the normalisation of the located block.
  \<open>weatherElements[0].time.length\<close> throws when the block has no element.
\<close>

definition normalize :: "string \<Rightarrow> UpstreamRecords \<Rightarrow> LocalityBlock \<Rightarrow> js_error + WeatherResponse" where
  "normalize name recs locationData =
     (let weatherElements = weatherElement locationData in
      case weatherElements of
        [] \<Rightarrow> Inl (TypeError ''undefined'' ''time'')
      | first # _ \<Rightarrow>
          (case forecast_loop weatherElements (length (time first)) 0 [] of
             Inl e \<Rightarrow> Inl e
           | Inr fs \<Rightarrow>
               Inr \<lparr>city = name,
                    datasetDescription = UpstreamRecords.datasetDescription recs,
                    dataUpdateTime = issueTime recs,
                    forecasts = fs\<rparr>))"

section \<open>The upstream client\<close>

definition CWA_API_BASE_URL :: string where
  "CWA_API_BASE_URL = ''https://opendata.cwa.gov.tw/api''"

text \<open>
  The configured names (lines 14 to 19): U+65B0 U+7AF9 U+7E23, U+6843 U+5712 U+5E02,
  U+65B0 U+7AF9 U+5E02 and U+82D7 U+6817 U+7E23.
\<close>

definition TAIWAN_CITIES :: "string list" where
  "TAIWAN_CITIES =
     [[CHR 0xE6, CHR 0x96, CHR 0xB0, CHR 0xE7, CHR 0xAB, CHR 0xB9, CHR 0xE7, CHR 0xB8, CHR 0xA3],
      [CHR 0xE6, CHR 0xA1, CHR 0x83, CHR 0xE5, CHR 0x9C, CHR 0x92, CHR 0xE5, CHR 0xB8, CHR 0x82],
      [CHR 0xE6, CHR 0x96, CHR 0xB0, CHR 0xE7, CHR 0xAB, CHR 0xB9, CHR 0xE5, CHR 0xB8, CHR 0x82],
      [CHR 0xE8, CHR 0x8B, CHR 0x97, CHR 0xE6, CHR 0xA0, CHR 0x97, CHR 0xE7, CHR 0xB8, CHR 0xA3]]"

text \<open>
  The one outbound call, \<open>axios.get(url, {params: {Authorization, locationName}})\<close>.
  The HTTP client is a parameter of the model: a function from the request to the
  rejection (\<open>Inl\<close>) or to \<open>response.data\<close> (\<open>Inr\<close>), the parsed body, where
  \<open>None\<close> is the body \<open>null\<close>. The calls a function issues are returned beside its
  result, in order.
\<close>

record OutboundRequest =
  url :: string
  params_Authorization :: string
  params_locationName :: string

type_synonym http_client = "OutboundRequest \<Rightarrow> js_error + UpstreamEnvelope option"

text \<open>
  The message of line 34; it ends in the ASCII text \<open>CWA_API_KEY\<close>.
\<close>

definition config_error_message :: string where
  "config_error_message =
     [CHR 0xE4, CHR 0xBC, CHR 0xBA, CHR 0xE6, CHR 0x9C, CHR 0x8D, CHR 0xE5, CHR 0x99, CHR 0xA8,
      CHR 0xE8, CHR 0xA8, CHR 0xAD, CHR 0xE5, CHR 0xAE, CHR 0x9A, CHR 0xE9, CHR 0x8C, CHR 0xAF,
      CHR 0xE8, CHR 0xAA, CHR 0xA4] @ '': '' @
     [CHR 0xE8, CHR 0xAB, CHR 0x8B, CHR 0xE5, CHR 0x9C, CHR 0xA8] @ '' .env '' @
     [CHR 0xE6, CHR 0xAA, CHR 0x94, CHR 0xE6, CHR 0xA1, CHR 0x88, CHR 0xE4, CHR 0xB8, CHR 0xAD,
      CHR 0xE8, CHR 0xA8, CHR 0xAD, CHR 0xE5, CHR 0xAE, CHR 0x9A] @ '' CWA_API_KEY''"

text \<open>The template of line 54 around the requested name.\<close>

definition not_found_message :: "string \<Rightarrow> string" where
  "not_found_message name =
     [CHR 0xE6, CHR 0x9F, CHR 0xA5, CHR 0xE7, CHR 0x84, CHR 0xA1, CHR 0xE8, CHR 0xB3, CHR 0x87,
      CHR 0xE6, CHR 0x96, CHR 0x99] @ '': '' @
     [CHR 0xE7, CHR 0x84, CHR 0xA1, CHR 0xE6, CHR 0xB3, CHR 0x95, CHR 0xE5, CHR 0x8F, CHR 0x96,
      CHR 0xE5, CHR 0xBE, CHR 0x97] @ '' '' @ name @ '' '' @
     [CHR 0xE5, CHR 0xA4, CHR 0xA9, CHR 0xE6, CHR 0xB0, CHR 0xA3, CHR 0xE8, CHR 0xB3, CHR 0x87,
      CHR 0xE6, CHR 0x96, CHR 0x99]"

text \<open>
  The request of lines 38 to 46, for the key \<open>k\<close> and the requested name (the
  parameter \<open>locationName\<close> of the source, here \<open>name\<close>); then
  \<open>getWeatherByLocation\<close> (lines 31 to 111). \<open>CWA_API_KEY\<close> is
  \<open>process.env.CWA_API_KEY\<close>: \<open>None\<close> when the variable is unset. \<open>!CWA_API_KEY\<close>
  holds for the unset and for the empty key. Line 49 reads \<open>records\<close> of the body,
  \<open>location\<close> of the records and \<open>find\<close> of the location in turn, and throws at
  the first that it reads of \<open>null\<close> or \<open>undefined\<close>.
\<close>

definition weather_request :: "string \<Rightarrow> string \<Rightarrow> OutboundRequest" where
  "weather_request k name =
     \<lparr>url = CWA_API_BASE_URL @ ''/v1/rest/datastore/F-C0032-001'',
      params_Authorization = k,
      params_locationName = name\<rparr>"

definition getWeatherByLocation :: "string option \<Rightarrow> http_client \<Rightarrow> string \<Rightarrow> (js_error + WeatherResponse) \<times> OutboundRequest list" where
  "getWeatherByLocation CWA_API_KEY axios_get name =
     (case CWA_API_KEY of
        None \<Rightarrow> (Inl (Error config_error_message), [])
      | Some k \<Rightarrow>
          if k = [] then (Inl (Error config_error_message), [])
          else
            let req = weather_request k name in
            (case axios_get req of
               Inl e \<Rightarrow> (Inl e, [req])
             | Inr None \<Rightarrow> (Inl (TypeError ''null'' ''records''), [req])
             | Inr (Some response_data) \<Rightarrow>
                 (case records response_data of
                    None \<Rightarrow> (Inl (TypeError ''undefined'' ''location''), [req])
                  | Some recs \<Rightarrow>
                      (case location recs of
                         None \<Rightarrow> (Inl (TypeError ''undefined'' ''find''), [req])
                       | Some locs \<Rightarrow>
                           (case find (\<lambda>loc. locationName loc = name) locs of
                              None \<Rightarrow> (Inl (Error (not_found_message name)), [req])
                            | Some locationData \<Rightarrow>
                                (normalize name recs locationData, [req]))))))"

text \<open>
  The location blocks of a parsed body, \<open>response.data.records.location\<close>, where the
  body has its \<open>records\<close> and these have their \<open>location\<close>.
\<close>

definition payload_locations :: "UpstreamEnvelope option \<Rightarrow> LocalityBlock list option" where
  "payload_locations payload =
     (case payload of
        None \<Rightarrow> None
      | Some env \<Rightarrow> (case records env of None \<Rightarrow> None | Some recs \<Rightarrow> location recs))"

section \<open>The route handler\<close>

record HttpReply =
  statusCode :: nat
  body :: json

text \<open>What \<open>res.json\<close> serialises of the forecast objects.\<close>

definition forecast_json :: "ForecastRecord \<Rightarrow> json" where
  "forecast_json f =
     JObj [(''startTime'', JStr (ForecastRecord.startTime f)),
           (''endTime'', JStr (ForecastRecord.endTime f)),
           (''weather'', JStr (weather f)),
           (''rain'', JStr (rain f)),
           (''minTemp'', JStr (minTemp f)),
           (''maxTemp'', JStr (maxTemp f)),
           (''comfort'', JStr (comfort f)),
           (''windSpeed'', JStr (windSpeed f))]"

definition weatherData_json :: "WeatherResponse \<Rightarrow> json" where
  "weatherData_json d =
     JObj [(''city'', JStr (city d)),
           (''datasetDescription'', JStr (WeatherResponse.datasetDescription d)),
           (''dataUpdateTime'', JStr (dataUpdateTime d)),
           (''forecasts'', JArr (map forecast_json (forecasts d)))]"

text \<open>
  Reading the property \<open>p\<close> of a JSON value \<open>v\<close>, for a property name that strings
  and arrays do not have themselves, as \<open>message\<close>: an object gives its member or
  \<open>undefined\<close> (\<open>None\<close>), a string, number, boolean or array gives \<open>undefined\<close>,
  and reading a property of \<open>null\<close> throws.
\<close>

fun member :: "json \<Rightarrow> string \<Rightarrow> json option" where
  "member (JObj members) p = map_of members p"
| "member v p = None"

definition get_prop :: "json \<Rightarrow> string \<Rightarrow> js_error + json option" where
  "get_prop v p = (if v = JNull then Inl (TypeError ''null'' p) else Inr (member v p))"

fun truthy :: "json \<Rightarrow> bool" where
  "truthy JNull = False"
| "truthy (JBool b) = b"
| "truthy (JNum n) = (n \<noteq> 0)"
| "truthy (JStr s) = (s \<noteq> [])"
| "truthy (JArr xs) = True"
| "truthy (JObj members) = True"

text \<open>\<open>a || b\<close>, where \<open>a\<close> may be \<open>undefined\<close>.\<close>

definition or_js :: "json option \<Rightarrow> json \<Rightarrow> json" where
  "or_js a b = (case a of None \<Rightarrow> b | Some v \<Rightarrow> if truthy v then v else b)"

text \<open>The labels and messages of lines 128, 136, 137, 144 and 145.\<close>

definition config_error_label :: string where
  "config_error_label =
     [CHR 0xE4, CHR 0xBC, CHR 0xBA, CHR 0xE6, CHR 0x9C, CHR 0x8D, CHR 0xE5, CHR 0x99, CHR 0xA8,
      CHR 0xE8, CHR 0xA8, CHR 0xAD, CHR 0xE5, CHR 0xAE, CHR 0x9A, CHR 0xE9, CHR 0x8C, CHR 0xAF,
      CHR 0xE8, CHR 0xAA, CHR 0xA4]"

definition upstream_error_label :: string where
  "upstream_error_label = ''CWA API '' @ [CHR 0xE9, CHR 0x8C, CHR 0xAF, CHR 0xE8, CHR 0xAA, CHR 0xA4]"

definition upstream_fallback_message :: string where
  "upstream_fallback_message =
     [CHR 0xE7, CHR 0x84, CHR 0xA1, CHR 0xE6, CHR 0xB3, CHR 0x95, CHR 0xE5, CHR 0x8F, CHR 0x96,
      CHR 0xE5, CHR 0xBE, CHR 0x97, CHR 0xE5, CHR 0xA4, CHR 0xA9, CHR 0xE6, CHR 0xB0, CHR 0xA3,
      CHR 0xE8, CHR 0xB3, CHR 0x87, CHR 0xE6, CHR 0x96, CHR 0x99]"

definition server_error_label :: string where
  "server_error_label =
     [CHR 0xE4, CHR 0xBC, CHR 0xBA, CHR 0xE6, CHR 0x9C, CHR 0x8D, CHR 0xE5, CHR 0x99, CHR 0xA8,
      CHR 0xE9, CHR 0x8C, CHR 0xAF, CHR 0xE8, CHR 0xAA, CHR 0xA4]"

definition server_error_message :: "string \<Rightarrow> string" where
  "server_error_message name =
     [CHR 0xE7, CHR 0x84, CHR 0xA1, CHR 0xE6, CHR 0xB3, CHR 0x95, CHR 0xE5, CHR 0x8F, CHR 0x96,
      CHR 0xE5, CHR 0xBE, CHR 0x97] @ '' '' @ name @ '' '' @
     [CHR 0xE5, CHR 0xA4, CHR 0xA9, CHR 0xE6, CHR 0xB0, CHR 0xA3, CHR 0xE8, CHR 0xB3, CHR 0x87,
      CHR 0xE6, CHR 0x96, CHR 0x99, CHR 0xEF, CHR 0xBC, CHR 0x8C, CHR 0xE8, CHR 0xAB, CHR 0x8B,
      CHR 0xE7, CHR 0xA8, CHR 0x8D, CHR 0xE5, CHR 0xBE, CHR 0x8C, CHR 0xE5, CHR 0x86, CHR 0x8D,
      CHR 0xE8, CHR 0xA9, CHR 0xA6]"

text \<open>
  The \<open>catch\<close> block of \<open>handleWeatherRequest\<close> (lines 123 to 147), without its log
  line. The result is the reply sent, or the error the block itself throws: then the
  handler's promise rejects and the handler has sent nothing. What Express does with
  the rejection is outside this model: version 4 leaves the request unanswered,
  version 5 hands the error to the error middleware below.
  In the second branch \<open>error.response.data.message\<close> is read while the argument of
  \<open>json\<close> is built.
\<close>

definition catch_block :: "string \<Rightarrow> js_error \<Rightarrow> js_error + HttpReply" where
  "catch_block name error =
     (if includes_js (message error) ''CWA_API_KEY'' then
        Inr \<lparr>statusCode = 500,
             body = JObj [(''error'', JStr config_error_label),
                          (''message'', JStr (message error))]\<rparr>
      else
        (case response error of
           Some r \<Rightarrow>
             (case get_prop (data r) ''message'' of
                Inl e \<Rightarrow> Inl e
              | Inr m \<Rightarrow>
                  Inr \<lparr>statusCode = status r,
                       body = JObj [(''error'', JStr upstream_error_label),
                                    (''message'', or_js m (JStr upstream_fallback_message)),
                                    (''details'', data r)]\<rparr>)
         | None \<Rightarrow>
             Inr \<lparr>statusCode = 500,
                  body = JObj [(''error'', JStr server_error_label),
                               (''message'', JStr (server_error_message name))]\<rparr>))"

text \<open>\<open>handleWeatherRequest(locationName)\<close> (lines 116 to 148); \<open>res.json\<close> replies 200.\<close>

definition handleWeatherRequest :: "string option \<Rightarrow> http_client \<Rightarrow> string \<Rightarrow> js_error + HttpReply" where
  "handleWeatherRequest CWA_API_KEY axios_get name =
     (case fst (getWeatherByLocation CWA_API_KEY axios_get name) of
        Inr d \<Rightarrow>
          Inr \<lparr>statusCode = 200,
               body = JObj [(''success'', JBool True), (''data'', weatherData_json d)]\<rparr>
      | Inl error \<Rightarrow> catch_block name error)"

text \<open>The error-handling middleware (lines 185 to 191), without its log line.\<close>

definition error_middleware :: "js_error \<Rightarrow> HttpReply" where
  "error_middleware err =
     \<lparr>statusCode = 500,
      body = JObj [(''error'', JStr server_error_label), (''message'', JStr (message err))]\<rparr>"

section \<open>Dates\<close>

text \<open>
  A \<open>Date\<close> is its time value: the milliseconds since 1970-01-01T00:00:00Z, an integer
  of absolute value at most 8.64e15. The functions below are the day and time
  abstract operations of the ECMAScript standard, under its names.
\<close>

definition valid_time :: "int \<Rightarrow> bool" where
  "valid_time t = (- 8640000000000000 \<le> t \<and> t \<le> 8640000000000000)"

definition msPerDay :: int where
  "msPerDay = 86400000"

definition Day :: "int \<Rightarrow> int" where
  "Day t = t div msPerDay"

definition DaysInYear :: "int \<Rightarrow> int" where
  "DaysInYear y =
     (if y mod 4 \<noteq> 0 then 365
      else if y mod 100 \<noteq> 0 then 366
      else if y mod 400 \<noteq> 0 then 365
      else 366)"

definition DayFromYear :: "int \<Rightarrow> int" where
  "DayFromYear y =
     365 * (y - 1970) + (y - 1969) div 4 - (y - 1901) div 100 + (y - 1601) div 400"

text \<open>
  \<open>YearFromTime(t)\<close> is the largest year that starts at or before \<open>t\<close>. It is computed by
  climbing, a year at a time, from a year that does not start later: no year has more
  than 366 days nor fewer than 365. Lemma \<open>YearFromTime_bounds\<close> below shows that the
  year found starts at or before the day of \<open>t\<close> and that the next year starts after it.
\<close>

function year_climb :: "int \<Rightarrow> int \<Rightarrow> int" where
  "year_climb y day = (if DayFromYear (y + 1) \<le> day then year_climb (y + 1) day else y)"
  by pat_completeness auto
termination
proof (relation "measure (\<lambda>(y, day). nat (day + 1 - DayFromYear (y + 1)))")
  show "wf (measure (\<lambda>(y, day). nat (day + 1 - DayFromYear (y + 1))))"
    by simp
next
  fix y day :: int
  assume le: "DayFromYear (y + 1) \<le> day"
  have lin: "\<And>a a' b b' c c' z :: int. a \<le> a' \<Longrightarrow> b' \<le> b + 1 \<Longrightarrow> c \<le> c' \<Longrightarrow>
      365 * (z - 1970) + a - b + c < 365 * (z + 1 - 1970) + a' - b' + c'"
    by simp
  have a: "(y + 1 - 1969) div 4 \<le> (y + 1 + 1 - 1969) div 4"
    by (intro zdiv_mono1) auto
  have b: "(y + 1 + 1 - 1901) div 100 \<le> (y + 1 - 1901) div 100 + 1"
    by linarith
  have c: "(y + 1 - 1601) div 400 \<le> (y + 1 + 1 - 1601) div 400"
    by (intro zdiv_mono1) auto
  have "DayFromYear (y + 1) < DayFromYear (y + 1 + 1)"
    unfolding DayFromYear_def by (rule lin [OF a b c])
  with le show "((y + 1, day), (y, day)) \<in> measure (\<lambda>(y, day). nat (day + 1 - DayFromYear (y + 1)))"
    by simp
qed

declare year_climb.simps [simp del]

definition YearFromTime :: "int \<Rightarrow> int" where
  "YearFromTime t =
     year_climb (1969 + (if 0 \<le> Day t then Day t div 366 else Day t div 365)) (Day t)"

definition DayWithinYear :: "int \<Rightarrow> int" where
  "DayWithinYear t = Day t - DayFromYear (YearFromTime t)"

definition InLeapYear :: "int \<Rightarrow> int" where
  "InLeapYear t = (if DaysInYear (YearFromTime t) = 366 then 1 else 0)"

definition MonthFromTime :: "int \<Rightarrow> int" where
  "MonthFromTime t =
     (let d = DayWithinYear t; leap = InLeapYear t in
      if d < 31 then 0
      else if d < 59 + leap then 1
      else if d < 90 + leap then 2
      else if d < 120 + leap then 3
      else if d < 151 + leap then 4
      else if d < 181 + leap then 5
      else if d < 212 + leap then 6
      else if d < 243 + leap then 7
      else if d < 273 + leap then 8
      else if d < 304 + leap then 9
      else if d < 334 + leap then 10
      else 11)"

definition DateFromTime :: "int \<Rightarrow> int" where
  "DateFromTime t =
     (let d = DayWithinYear t; leap = InLeapYear t; m = MonthFromTime t in
      if m = 0 then d + 1
      else if m = 1 then d - 30
      else if m = 2 then d - 58 - leap
      else if m = 3 then d - 89 - leap
      else if m = 4 then d - 119 - leap
      else if m = 5 then d - 150 - leap
      else if m = 6 then d - 180 - leap
      else if m = 7 then d - 211 - leap
      else if m = 8 then d - 242 - leap
      else if m = 9 then d - 272 - leap
      else if m = 10 then d - 303 - leap
      else d - 333 - leap)"

definition HourFromTime :: "int \<Rightarrow> int" where
  "HourFromTime t = (t div 3600000) mod 24"

definition MinFromTime :: "int \<Rightarrow> int" where
  "MinFromTime t = (t div 60000) mod 60"

definition SecFromTime :: "int \<Rightarrow> int" where
  "SecFromTime t = (t div 1000) mod 60"

definition msFromTime :: "int \<Rightarrow> int" where
  "msFromTime t = t mod 1000"

text \<open>The decimal digits of \<open>n\<close> in \<open>w\<close> places, zero-padded on the left.\<close>

definition digit_char :: "nat \<Rightarrow> char" where
  "digit_char d = char_of (48 + d)"

fun pad :: "nat \<Rightarrow> nat \<Rightarrow> string" where
  "pad 0 n = []"
| "pad (Suc w) n = pad w (n div 10) @ [digit_char (n mod 10)]"

text \<open>
  \<open>Date.prototype.toISOString\<close> on a valid time value: \<open>YYYY-MM-DDTHH:mm:ss.sssZ\<close>,
  and a sign with six digits for a year outside 0 to 9999.
\<close>

definition year_string :: "int \<Rightarrow> string" where
  "year_string y =
     (if 0 \<le> y \<and> y \<le> 9999 then pad 4 (nat y)
      else (if y < 0 then ''-'' else ''+'') @ pad 6 (nat \<bar>y\<bar>))"

definition toISOString :: "int \<Rightarrow> string" where
  "toISOString t =
     year_string (YearFromTime t) @ ''-'' @ pad 2 (nat (MonthFromTime t + 1)) @ ''-''
     @ pad 2 (nat (DateFromTime t)) @ ''T'' @ pad 2 (nat (HourFromTime t)) @ '':''
     @ pad 2 (nat (MinFromTime t)) @ '':'' @ pad 2 (nat (SecFromTime t)) @ ''.''
     @ pad 3 (nat (msFromTime t)) @ ''Z''"

text \<open>
  A reader of that format, as \<open>Date.parse\<close> reads it field by field: it returns the
  year, month (1 to 12), day of the month, hour, minute, second and millisecond, and
  \<open>None\<close> for a text that is not of the format or has a field out of range.
\<close>

definition is_digit :: "char \<Rightarrow> bool" where
  "is_digit c = (48 \<le> (of_char c :: nat) \<and> (of_char c :: nat) \<le> 57)"

fun digits_value :: "string \<Rightarrow> nat \<Rightarrow> nat" where
  "digits_value [] acc = acc"
| "digits_value (c # cs) acc = digits_value cs (10 * acc + (of_char c - 48))"

definition read_number :: "nat \<Rightarrow> string \<Rightarrow> (nat \<times> string) option" where
  "read_number w s =
     (if w \<le> length s \<and> list_all is_digit (take w s)
      then Some (digits_value (take w s) 0, drop w s) else None)"

definition expect :: "char \<Rightarrow> string \<Rightarrow> string option" where
  "expect c s = (case s of [] \<Rightarrow> None | x # rest \<Rightarrow> if x = c then Some rest else None)"

definition read_year :: "string \<Rightarrow> (int \<times> string) option" where
  "read_year s =
     (case s of
        [] \<Rightarrow> None
      | c # rest \<Rightarrow>
          if c = CHR ''+'' then map_option (\<lambda>(n, r). (int n, r)) (read_number 6 rest)
          else if c = CHR ''-'' then
            (case read_number 6 rest of
               None \<Rightarrow> None
             | Some (n, r) \<Rightarrow> if n = 0 then None else Some (- int n, r))
          else map_option (\<lambda>(n, r). (int n, r)) (read_number 4 s))"

definition parse_iso8601 :: "string \<Rightarrow> (int \<times> nat \<times> nat \<times> nat \<times> nat \<times> nat \<times> nat) option" where
  "parse_iso8601 s =
     Option.bind (read_year s) (\<lambda>(year, s).
     Option.bind (expect CHR ''-'' s) (\<lambda>s.
     Option.bind (read_number 2 s) (\<lambda>(month, s).
     Option.bind (expect CHR ''-'' s) (\<lambda>s.
     Option.bind (read_number 2 s) (\<lambda>(date, s).
     Option.bind (expect CHR ''T'' s) (\<lambda>s.
     Option.bind (read_number 2 s) (\<lambda>(hour, s).
     Option.bind (expect CHR '':'' s) (\<lambda>s.
     Option.bind (read_number 2 s) (\<lambda>(minute, s).
     Option.bind (expect CHR '':'' s) (\<lambda>s.
     Option.bind (read_number 2 s) (\<lambda>(second, s).
     Option.bind (expect CHR ''.'' s) (\<lambda>s.
     Option.bind (read_number 3 s) (\<lambda>(ms, s).
       if s = ''Z'' \<and> 1 \<le> month \<and> month \<le> 12 \<and> 1 \<le> date \<and> date \<le> 31
          \<and> hour \<le> 23 \<and> minute \<le> 59 \<and> second \<le> 59
       then Some (year, month, date, hour, minute, second, ms)
       else None)))))))))))))"

section \<open>The routes\<close>

text \<open>
  The ideographs U+7E23 and U+5E02 that the two slug derivations replace.
\<close>

definition xian :: string where
  "xian = [CHR 0xE7, CHR 0xB8, CHR 0xA3]"

definition shi :: string where
  "shi = [CHR 0xE5, CHR 0xB8, CHR 0x82]"

text \<open>\<open>obj[key] = v\<close>: an existing member is overwritten in place, a new one is appended.\<close>

fun set_prop :: "(string \<times> json) list \<Rightarrow> string \<Rightarrow> json \<Rightarrow> (string \<times> json) list" where
  "set_prop [] k v = [(k, v)]"
| "set_prop ((k', v') # members) k v =
     (if k' = k then (k, v) # members else (k', v') # set_prop members k v)"

text \<open>
  The \<open>endpoints\<close> object of the handler of \<open>GET /\<close> (lines 155 to 163), with the slug
  derivation of line 161.
\<close>

definition discovery_endpoints :: "(string \<times> json) list" where
  "discovery_endpoints =
     fold (\<lambda>city endpoints.
             let slug = toLowerCase (replace_js (replace_js city xian ''county'') shi ''city'')
             in set_prop endpoints city (JStr (''/api/weather/'' @ slug)))
          TAIWAN_CITIES
          [(''health'', JStr ''/api/health'')]"

text \<open>The welcome message of line 166 and the label of line 196.\<close>

definition welcome_message :: string where
  "welcome_message =
     [CHR 0xE6, CHR 0xAD, CHR 0xA1, CHR 0xE8, CHR 0xBF, CHR 0x8E, CHR 0xE4, CHR 0xBD, CHR 0xBF,
      CHR 0xE7, CHR 0x94, CHR 0xA8] @ '' CWA '' @
     [CHR 0xE5, CHR 0xA4, CHR 0xA9, CHR 0xE6, CHR 0xB0, CHR 0xA3, CHR 0xE9, CHR 0xA0, CHR 0x90,
      CHR 0xE5, CHR 0xA0, CHR 0xB1] @ '' API''"

definition not_found_label :: string where
  "not_found_label =
     [CHR 0xE6, CHR 0x89, CHR 0xBE, CHR 0xE4, CHR 0xB8, CHR 0x8D, CHR 0xE5, CHR 0x88, CHR 0xB0,
      CHR 0xE6, CHR 0xAD, CHR 0xA4, CHR 0xE8, CHR 0xB7, CHR 0xAF, CHR 0xE5, CHR 0xBE, CHR 0x91]"

text \<open>
  The handlers registered with \<open>app.get\<close>, and the table of the registrations in
  order: \<open>/\<close>, \<open>/api/health\<close>, then one route for each configured name, with the slug
  derivation of line 178.
\<close>

datatype Handler = Discovery | Health | Weather string

definition routes :: "(string \<times> Handler) list" where
  "routes =
     [(''/'', Discovery), (''/api/health'', Health)]
     @ map (\<lambda>city.
              let slug = toLowerCase (replace_js (replace_js city xian ''county'') shi ''city'')
              in (''/api/weather/'' @ slug, Weather city))
           TAIWAN_CITIES"

text \<open>
  A handler's reply, given the environment of the process: the API key, the HTTP
  client and the clock (the time value \<open>new Date()\<close> takes).
\<close>

definition run_handler :: "string option \<Rightarrow> http_client \<Rightarrow> int \<Rightarrow> Handler \<Rightarrow> js_error + HttpReply" where
  "run_handler CWA_API_KEY axios_get now h =
     (case h of
        Discovery \<Rightarrow>
          Inr \<lparr>statusCode = 200,
               body = JObj [(''message'', JStr welcome_message),
                            (''endpoints'', JObj discovery_endpoints)]\<rparr>
      | Health \<Rightarrow>
          Inr \<lparr>statusCode = 200,
               body = JObj [(''status'', JStr ''OK''),
                            (''timestamp'', JStr (toISOString now))]\<rparr>
      | Weather name \<Rightarrow> handleWeatherRequest CWA_API_KEY axios_get name)"

text \<open>
  The application on a \<open>GET\<close> request with the given path. Which routes a request
  matches is decided by Express, outside this program: its matcher is the parameter
  \<open>matches\<close>, applied to a route's path and the request's path. The first registered
  route that matches handles the request (no handler passes the request on), and the
  last middleware (lines 194 to 198) answers a request that no route matches. The three
  middlewares of lines 22 to 24 pass a \<open>GET\<close> request on.

  The request's path is the text of the request line, which Express matches as it
  stands: it decodes the values of route parameters only, and these routes have none.
  In that text a client writes every byte outside ASCII as \<open>%\<close> and two hexadecimal
  digits (\<open>percent_encode\<close> below), so the path of a request is made of ASCII
  characters.
\<close>

definition is_ascii :: "char \<Rightarrow> bool" where
  "is_ascii c = ((of_char c :: nat) < 128)"

definition hex_digit :: "nat \<Rightarrow> char" where
  "hex_digit d = (if d < 10 then char_of (48 + d) else char_of (55 + d))"

definition percent_encode :: "string \<Rightarrow> string" where
  "percent_encode s =
     concat (map (\<lambda>c. if is_ascii c then [c]
                       else [CHR ''%'', hex_digit ((of_char c :: nat) div 16),
                             hex_digit ((of_char c :: nat) mod 16)]) s)"

definition dispatch :: "(string \<Rightarrow> string \<Rightarrow> bool) \<Rightarrow> string \<Rightarrow> Handler option" where
  "dispatch matches path = map_option snd (find (\<lambda>(p, h). matches p path) routes)"

definition app :: "(string \<Rightarrow> string \<Rightarrow> bool) \<Rightarrow> string option \<Rightarrow> http_client \<Rightarrow> int \<Rightarrow> string \<Rightarrow> js_error + HttpReply" where
  "app matches CWA_API_KEY axios_get now path =
     (case dispatch matches path of
        Some h \<Rightarrow> run_handler CWA_API_KEY axios_get now h
      | None \<Rightarrow>
          Inr \<lparr>statusCode = 404, body = JObj [(''error'', JStr not_found_label)]\<rparr>)"

section \<open>An example payload\<close>

text \<open>
  A block with the five element kinds and two time slots, and its normalised form.
\<close>

definition example_slots :: "string \<Rightarrow> string \<Rightarrow> TimeSlot list" where
  "example_slots v0 v1 =
     [\<lparr>TimeSlot.startTime = ''18:00'', endTime = ''06:00'', parameter = Some \<lparr>parameterName = v0\<rparr>\<rparr>,
      \<lparr>TimeSlot.startTime = ''06:00'', endTime = ''18:00'', parameter = Some \<lparr>parameterName = v1\<rparr>\<rparr>]"

definition example_block :: LocalityBlock where
  "example_block =
     \<lparr>locationName = ''Hsinchu'',
      weatherElement =
        [\<lparr>elementName = ''Wx'', time = example_slots ''cloudy'' ''rain''\<rparr>,
         \<lparr>elementName = ''PoP'', time = example_slots ''20'' ''70''\<rparr>,
         \<lparr>elementName = ''MinT'', time = example_slots ''18'' ''17''\<rparr>,
         \<lparr>elementName = ''CI'', time = example_slots ''fine'' ''cool''\<rparr>,
         \<lparr>elementName = ''MaxT'', time = example_slots ''24'' ''21''\<rparr>]\<rparr>"

definition example_records :: UpstreamRecords where
  "example_records =
     \<lparr>UpstreamRecords.datasetDescription = ''36h'', issueTime = ''12:00'', location = Some [example_block]\<rparr>"


text \<open>
  The first configured name and the path of its route; a payload without a block of
  that name; and HTTP clients that answer every request with that payload, with a
  503 whose body is \<open>{message: "service unavailable"}\<close>, \<open>{message: ""}\<close> or
  \<open>null\<close>.
\<close>

definition example_city :: string where
  "example_city = [CHR 0xE6, CHR 0x96, CHR 0xB0, CHR 0xE7, CHR 0xAB, CHR 0xB9, CHR 0xE7, CHR 0xB8, CHR 0xA3]"

definition example_path :: string where
  "example_path = ''/api/weather/'' @ [CHR 0xE6, CHR 0x96, CHR 0xB0, CHR 0xE7, CHR 0xAB, CHR 0xB9] @ ''county''"

text \<open>
  The matcher that takes a route's path literally, and the path of the request for
  \<^const>\<open>example_path\<close>, as a client sends it.
\<close>

definition exact_match :: "string \<Rightarrow> string \<Rightarrow> bool" where
  "exact_match p path = (p = path)"

definition example_request_path :: string where
  "example_request_path = ''/api/weather/%E6%96%B0%E7%AB%B9county''"

definition example_envelope :: UpstreamEnvelope where
  "example_envelope = \<lparr>records = Some example_records\<rparr>"

definition payload_client :: http_client where
  "payload_client req = Inr (Some example_envelope)"

definition failing_client :: "json \<Rightarrow> http_client" where
  "failing_client b req =
     Inl \<lparr>message = ''Request failed with status code 503'',
          response = Some \<lparr>status = 503, data = b\<rparr>\<rparr>"

definition unavailable_body :: json where
  "unavailable_body = JObj [(''message'', JStr ''service unavailable'')]"


text \<open>
  A client whose payload is the body \<open>{}\<close>, and a block whose one element, named
  \<open>Wx\<close>, has one slot without a \<open>parameter\<close>.
\<close>

definition empty_body_client :: http_client where
  "empty_body_client req = Inr (Some \<lparr>records = None\<rparr>)"


section \<open>Normalisation\<close>

subsection \<open>One element at one slot\<close>



lemma apply_element_absent:
  "i < length (time e) \<Longrightarrow> recognised (elementName e) \<Longrightarrow> parameter (time e ! i) = None \<Longrightarrow>
     apply_element i f e = Inl (TypeError ''undefined'' ''parameterName'')"
  by (auto simp: apply_element_def read_parameterName_def recognised_def Let_def)




subsection \<open>All elements at one slot\<close>







subsection \<open>The loop over the slots\<close>




subsection \<open>The response\<close>











lemma getWeatherByLocation_found:
  assumes "k \<noteq> []"
    and "axios_get (weather_request k name) = Inr (Some env)"
    and "records env = Some recs"
    and "location recs = Some locs"
    and "find (\<lambda>loc. locationName loc = name) locs = Some block"
  shows "getWeatherByLocation (Some k) axios_get name =
     (normalize name recs block, [weather_request k name])"
  using assms by (simp add: getWeatherByLocation_def)




section \<open>The route handler and the routes\<close>

subsection \<open>The configured names, evaluated\<close>

lemma includes_config_error_message:
  "includes_js config_error_message ''CWA_API_KEY''"
  by code_simp

lemma not_found_message_no_key_all:
  "list_all (\<lambda>name. \<not> includes_js (not_found_message name) ''CWA_API_KEY'') TAIWAN_CITIES"
  by code_simp

lemma not_found_message_no_key:
  "name \<in> set TAIWAN_CITIES \<Longrightarrow> \<not> includes_js (not_found_message name) ''CWA_API_KEY''"
  using not_found_message_no_key_all by (simp add: list_all_iff)

lemma type_error_no_key:
  "\<not> includes_js (message (TypeError ''null'' ''records'')) ''CWA_API_KEY''"
  "\<not> includes_js (message (TypeError ''undefined'' ''location'')) ''CWA_API_KEY''"
  "\<not> includes_js (message (TypeError ''undefined'' ''find'')) ''CWA_API_KEY''"
  by code_simp+

lemma type_error_response:
  "response (TypeError what prop) = None"
  by (simp add: TypeError_def Error_def)

lemma routes_lookup_all:
  "list_all
     (\<lambda>name. find (\<lambda>(p, h). p = ''/api/weather/'' @ toLowerCase (replace_js (replace_js name xian ''county'') shi ''city'')) routes
        = Some (''/api/weather/'' @ toLowerCase (replace_js (replace_js name xian ''county'') shi ''city''), Weather name))
     TAIWAN_CITIES"
  by code_simp

lemma routes_lookup:
  "name \<in> set TAIWAN_CITIES \<Longrightarrow>
     find (\<lambda>(p, h). p = ''/api/weather/'' @ toLowerCase (replace_js (replace_js name xian ''county'') shi ''city'')) routes
       = Some (''/api/weather/'' @ toLowerCase (replace_js (replace_js name xian ''county'') shi ''city''), Weather name)"
  using routes_lookup_all by (simp add: list_all_iff)

lemma route_registered:
  assumes "name \<in> set TAIWAN_CITIES"
  shows "(''/api/weather/'' @ toLowerCase (replace_js (replace_js name xian ''county'') shi ''city''), Weather name)
           \<in> set routes"
  using routes_lookup [OF assms] by (auto simp: find_Some_iff in_set_conv_nth)

lemma discovery_lookup_all:
  "list_all
     (\<lambda>name. map_of discovery_endpoints name
        = Some (JStr (''/api/weather/'' @ toLowerCase (replace_js (replace_js name xian ''county'') shi ''city''))))
     TAIWAN_CITIES"
  by code_simp

lemma example_path_eq:
  "example_path = ''/api/weather/'' @ toLowerCase (replace_js (replace_js example_city xian ''county'') shi ''city'')"
  by code_simp

lemma example_city_configured: "example_city \<in> set TAIWAN_CITIES"
  by code_simp

subsection \<open>The branches of the catch block\<close>

lemma catch_block_config:
  "includes_js (message e) ''CWA_API_KEY'' \<Longrightarrow>
     catch_block name e =
       Inr \<lparr>statusCode = 500,
            body = JObj [(''error'', JStr config_error_label), (''message'', JStr (message e))]\<rparr>"
  by (simp add: catch_block_def)

lemma catch_block_upstream:
  "\<not> includes_js (message e) ''CWA_API_KEY'' \<Longrightarrow> response e = Some r \<Longrightarrow> data r \<noteq> JNull \<Longrightarrow>
     catch_block name e =
       Inr \<lparr>statusCode = status r,
            body = JObj [(''error'', JStr upstream_error_label),
                         (''message'', or_js (member (data r) ''message'') (JStr upstream_fallback_message)),
                         (''details'', data r)]\<rparr>"
  by (simp add: catch_block_def get_prop_def)


lemma catch_block_generic:
  "\<not> includes_js (message e) ''CWA_API_KEY'' \<Longrightarrow> response e = None \<Longrightarrow>
     catch_block name e =
       Inr \<lparr>statusCode = 500,
            body = JObj [(''error'', JStr server_error_label),
                         (''message'', JStr (server_error_message name))]\<rparr>"
  by (simp add: catch_block_def)

lemma axios_message_no_key:
  "\<not> includes_js ''Request failed with status code 503'' ''CWA_API_KEY''"
  by code_simp

lemma labels_differ:
  "upstream_error_label \<noteq> ''upstream API error''"
  "server_error_label \<noteq> ''server error''"
  "not_found_label \<noteq> ''not found''"
  by (simp_all add: upstream_error_label_def server_error_label_def not_found_label_def)


lemma handle_client_error:
  "k \<noteq> [] \<Longrightarrow> axios_get (weather_request k name) = Inl e \<Longrightarrow>
     handleWeatherRequest (Some k) axios_get name = catch_block name e"
  by (simp add: handleWeatherRequest_def getWeatherByLocation_def)

subsection \<open>Failures of the upstream call\<close>

text \<open>
  The theorems of this and of the next subsection are about the handler
  \<open>handleWeatherRequest(locationName)\<close> as it runs. Which requests Express hands
  to it is the matter of the subsection on the paths of the weather routes.
\<close>

lemma getWeatherByLocation_calls:
  "snd (getWeatherByLocation key axios_get name) =
     (case key of None \<Rightarrow> [] | Some k \<Rightarrow> if k = [] then [] else [weather_request k name])"
  by (simp add: getWeatherByLocation_def Let_def split: option.splits sum.splits)

lemma failing_client_request:
  "failing_client b (weather_request ''key'' example_city) =
      Inl \<lparr>message = ''Request failed with status code 503'',
           response = Some \<lparr>status = 503, data = b\<rparr>\<rparr>"
  by (simp add: failing_client_def)

lemma handle_failing_client:
  "handleWeatherRequest (Some ''key'') (failing_client b) example_city =
      catch_block example_city \<lparr>message = ''Request failed with status code 503'',
           response = Some \<lparr>status = 503, data = b\<rparr>\<rparr>"
  by (rule handle_client_error [of "''key''" "failing_client b" example_city])
    (simp_all add: failing_client_request)

text \<open>
  Claim C2, as the code has it. Let the HTTP client reject the request with an error
  that carries a response of status \<open>S\<close> and a body \<open>B\<close> other than \<open>null\<close>, and whose
  message does not contain \<open>CWA_API_KEY\<close> (the test the \<open>catch\<close> block makes first).
  Then the handler of the name's route replies with status \<open>S\<close> and the body
  \<open>{error: upstream_error_label, message: B.message || upstream_fallback_message,
  details: B}\<close>: the fallback stands for a \<open>message\<close> that is absent or falsy. The
  label is the text of line 136, not the text \<open>upstream API error\<close>.
\<close>

theorem upstream_failure_reply:
  assumes "k \<noteq> []"
    and "axios_get (weather_request k name) = Inl e"
    and "response e = Some \<lparr>status = S, data = B\<rparr>"
    and "\<not> includes_js (message e) ''CWA_API_KEY''"
    and "B \<noteq> JNull"
  shows "handleWeatherRequest (Some k) axios_get name =
     Inr \<lparr>statusCode = S,
          body = JObj [(''error'', JStr upstream_error_label),
                       (''message'', or_js (member B ''message'') (JStr upstream_fallback_message)),
                       (''details'', B)]\<rparr>"
  using handle_client_error [of k axios_get name e, OF assms(1,2)]
    catch_block_upstream [OF assms(4,3)] assms(5)
  by simp

text \<open>
  The theorem at a 503 with the body \<open>{message: "service unavailable"}\<close>.
\<close>

theorem upstream_failure_reply_witness:
  "handleWeatherRequest (Some ''key'') (failing_client unavailable_body) example_city =
     Inr \<lparr>statusCode = 503,
          body = JObj [(''error'', JStr upstream_error_label),
                       (''message'', JStr ''service unavailable''),
                       (''details'', unavailable_body)]\<rparr>"
  using upstream_failure_reply [where name = example_city and k = "''key''"
      and axios_get = "failing_client unavailable_body"
      and e = "\<lparr>message = ''Request failed with status code 503'',
                response = Some \<lparr>status = 503, data = unavailable_body\<rparr>\<rparr>"
      and S = 503 and B = unavailable_body]
    failing_client_request [of unavailable_body] axios_message_no_key
  by (simp add: unavailable_body_def or_js_def)

text \<open>
  Where the claim as stated fails: at its own example the \<open>error\<close> member of the
  handler's reply is not the text \<open>upstream API error\<close>; a body \<open>{message: ""}\<close>
  has a \<open>message\<close> and is answered with the fallback; and on the body \<open>null\<close> the
  handler throws while it builds the reply.
\<close>

theorem upstream_failure_reply_counterexample:
  "handleWeatherRequest (Some ''key'') (failing_client unavailable_body) example_city =
     Inr \<lparr>statusCode = 503,
          body = JObj [(''error'', JStr upstream_error_label),
                       (''message'', JStr ''service unavailable''),
                       (''details'', unavailable_body)]\<rparr>
   \<and> upstream_error_label \<noteq> ''upstream API error''
   \<and> handleWeatherRequest (Some ''key'') (failing_client (JObj [(''message'', JStr '''')])) example_city =
     Inr \<lparr>statusCode = 503,
          body = JObj [(''error'', JStr upstream_error_label),
                       (''message'', JStr upstream_fallback_message),
                       (''details'', JObj [(''message'', JStr '''')])]\<rparr>
   \<and> handleWeatherRequest (Some ''key'') (failing_client JNull) example_city =
     Inl (TypeError ''null'' ''message'')"
  using axios_message_no_key labels_differ(1)
  by (simp add: handle_failing_client catch_block_def get_prop_def or_js_def unavailable_body_def)

subsection \<open>The unset key and the missing block\<close>

lemma example_block_other_name:
  "payload_locations (Some example_envelope) = Some [example_block]
   \<and> locationName example_block \<noteq> example_city"
  by (simp add: payload_locations_def example_envelope_def example_records_def example_block_def
      example_city_def)

lemma unset_key_no_call:
  "getWeatherByLocation None axios_get name = (Inl (Error config_error_message), [])"
  by (simp add: getWeatherByLocation_def)

lemma handle_unset_key:
  "handleWeatherRequest None axios_get name =
     Inr \<lparr>statusCode = 500,
          body = JObj [(''error'', JStr config_error_label),
                       (''message'', JStr config_error_message)]\<rparr>"
proof -
  have "handleWeatherRequest None axios_get name = catch_block name (Error config_error_message)"
    by (simp add: handleWeatherRequest_def getWeatherByLocation_def)
  also have "\<dots> = Inr \<lparr>statusCode = 500,
               body = JObj [(''error'', JStr config_error_label),
                            (''message'', JStr config_error_message)]\<rparr>"
    using catch_block_config [of "Error config_error_message" name] includes_config_error_message
    by (simp add: Error_def)
  finally show ?thesis .
qed

text \<open>
  The error of a fetch whose payload has no block of the name: the \<open>Error\<close> of line
  54 when the payload has a list of blocks, and otherwise the TypeError of line 49.
\<close>

lemma missing_block_error:
  assumes "k \<noteq> []"
    and "axios_get (weather_request k name) = Inr payload"
    and "\<forall>locs. payload_locations payload = Some locs \<longrightarrow> (\<forall>loc \<in> set locs. locationName loc \<noteq> name)"
  shows "getWeatherByLocation (Some k) axios_get name =
     (Inl (case payload of
             None \<Rightarrow> TypeError ''null'' ''records''
           | Some env \<Rightarrow>
               (case records env of
                  None \<Rightarrow> TypeError ''undefined'' ''location''
                | Some recs \<Rightarrow>
                    (case location recs of
                       None \<Rightarrow> TypeError ''undefined'' ''find''
                     | Some locs \<Rightarrow> Error (not_found_message name)))),
      [weather_request k name])"
proof (cases payload)
  case None
  with assms(1,2) show ?thesis by (simp add: getWeatherByLocation_def)
next
  case env: (Some env)
  show ?thesis
  proof (cases "records env")
    case None
    with env assms(1,2) show ?thesis by (simp add: getWeatherByLocation_def)
  next
    case recs: (Some recs)
    show ?thesis
    proof (cases "location recs")
      case None
      with env recs assms(1,2) show ?thesis by (simp add: getWeatherByLocation_def)
    next
      case (Some locs)
      with env recs have "payload_locations payload = Some locs"
        by (simp add: payload_locations_def)
      with assms(3) have "\<forall>loc \<in> set locs. locationName loc \<noteq> name" by blast
      then have "find (\<lambda>loc. locationName loc = name) locs = None"
        by (simp add: find_None_iff)
      with env recs Some assms(1,2) show ?thesis by (simp add: getWeatherByLocation_def)
    qed
  qed
qed

lemma handle_missing_block:
  assumes "name \<in> set TAIWAN_CITIES"
    and "k \<noteq> []"
    and "axios_get (weather_request k name) = Inr payload"
    and "\<forall>locs. payload_locations payload = Some locs \<longrightarrow> (\<forall>loc \<in> set locs. locationName loc \<noteq> name)"
  shows "handleWeatherRequest (Some k) axios_get name
        = Inr \<lparr>statusCode = 500,
               body = JObj [(''error'', JStr server_error_label),
                            (''message'', JStr (server_error_message name))]\<rparr>"
proof -
  let ?e = "case payload of
             None \<Rightarrow> TypeError ''null'' ''records''
           | Some env \<Rightarrow>
               (case records env of
                  None \<Rightarrow> TypeError ''undefined'' ''location''
                | Some recs \<Rightarrow>
                    (case location recs of
                       None \<Rightarrow> TypeError ''undefined'' ''find''
                     | Some locs \<Rightarrow> Error (not_found_message name)))"
  from not_found_message_no_key [OF assms(1)]
  have nf: "\<not> includes_js (message (Error (not_found_message name))) ''CWA_API_KEY''"
    by (simp add: Error_def)
  have no_key: "\<not> includes_js (message ?e) ''CWA_API_KEY''"
    using type_error_no_key nf by (simp split: option.splits)
  have no_response: "response ?e = None"
    by (simp add: type_error_response Error_def split: option.splits)
  from missing_block_error [of k axios_get name payload, OF assms(2,3,4)]
  have "handleWeatherRequest (Some k) axios_get name = catch_block name ?e"
    by (simp add: handleWeatherRequest_def)
  with catch_block_generic [OF no_key no_response] show ?thesis by simp
qed

lemma example_payload_request:
  "payload_client (weather_request ''key'' example_city) = Inr (Some example_envelope)"
  by (simp add: payload_client_def)

lemma type_error_not_found:
  "TypeError ''undefined'' ''location'' \<noteq> Error (not_found_message name)"
  by (simp add: TypeError_def Error_def not_found_message_def)

text \<open>
  Claim C4, as the code has it. For every configured name and non-empty key, when the
  parsed body of the upstream response has no block of that name, the fetch makes its
  one outbound call and fails: with the \<open>Error\<close> whose message is
  \<^const>\<open>not_found_message\<close> of the name when the body has a list of blocks, and
  with the TypeError of line 49 when the body is \<open>null\<close>, has no \<open>records\<close> or has
  no \<open>location\<close> in them. In each case the handler of the name's route replies 500
  with the body \<open>{error: server_error_label, message: server_error_message name}\<close>.
  The label is the text of line 144, not the text \<open>server error\<close>.
\<close>

theorem missing_block_reply:
  assumes "name \<in> set TAIWAN_CITIES"
    and "k \<noteq> []"
    and "axios_get (weather_request k name) = Inr payload"
    and "\<forall>locs. payload_locations payload = Some locs \<longrightarrow> (\<forall>loc \<in> set locs. locationName loc \<noteq> name)"
  shows "getWeatherByLocation (Some k) axios_get name =
     (Inl (case payload of
             None \<Rightarrow> TypeError ''null'' ''records''
           | Some env \<Rightarrow>
               (case records env of
                  None \<Rightarrow> TypeError ''undefined'' ''location''
                | Some recs \<Rightarrow>
                    (case location recs of
                       None \<Rightarrow> TypeError ''undefined'' ''find''
                     | Some locs \<Rightarrow> Error (not_found_message name)))),
      [weather_request k name])
     \<and> handleWeatherRequest (Some k) axios_get name
        = Inr \<lparr>statusCode = 500,
               body = JObj [(''error'', JStr server_error_label),
                            (''message'', JStr (server_error_message name))]\<rparr>"
  using missing_block_error [of k axios_get name payload, OF assms(2,3,4)]
    handle_missing_block [of name k axios_get payload, OF assms]
  by (rule conjI)

text \<open>
  The theorem at the example payload, whose one block has another name.
\<close>

theorem missing_block_reply_witness:
  "getWeatherByLocation (Some ''key'') payload_client example_city
        = (Inl (Error (not_found_message example_city)), [weather_request ''key'' example_city])
     \<and> handleWeatherRequest (Some ''key'') payload_client example_city
        = Inr \<lparr>statusCode = 500,
               body = JObj [(''error'', JStr server_error_label),
                            (''message'', JStr (server_error_message example_city))]\<rparr>"
  using missing_block_reply [where name = example_city and k = "''key''"
      and axios_get = payload_client and payload = "Some example_envelope"]
    example_city_configured example_payload_request example_block_other_name
  by (simp add: example_envelope_def example_records_def)

text \<open>
  Where the claim as stated fails: on the body \<open>{}\<close>, which parses and has no block
  of the name, the fetch fails with a TypeError and not with the \<open>Error\<close> of line
  54; and the \<open>error\<close> member of the handler's reply is not the text
  \<open>server error\<close>.
\<close>

theorem missing_block_reply_counterexample:
  "getWeatherByLocation (Some ''key'') empty_body_client example_city
        = (Inl (TypeError ''undefined'' ''location''), [weather_request ''key'' example_city])
   \<and> TypeError ''undefined'' ''location'' \<noteq> Error (not_found_message example_city)
   \<and> handleWeatherRequest (Some ''key'') payload_client example_city
        = Inr \<lparr>statusCode = 500,
               body = JObj [(''error'', JStr server_error_label),
                            (''message'', JStr (server_error_message example_city))]\<rparr>
   \<and> server_error_label \<noteq> ''server error''"
proof -
  have k: "''key'' \<noteq> []" by simp
  have locs: "\<forall>locs. payload_locations (Some example_envelope) = Some locs \<longrightarrow>
      (\<forall>loc \<in> set locs. locationName loc \<noteq> example_city)"
    using example_block_other_name by simp
  have "getWeatherByLocation (Some ''key'') empty_body_client example_city
        = (Inl (TypeError ''undefined'' ''location''), [weather_request ''key'' example_city])"
    by (simp add: getWeatherByLocation_def empty_body_client_def)
  with handle_missing_block [of example_city "''key''" payload_client "Some example_envelope",
      OF example_city_configured k example_payload_request locs]
    type_error_not_found [of example_city] labels_differ(2)
  show ?thesis by simp
qed

subsection \<open>The paths of the weather routes\<close>

text \<open>
  The path of every weather route holds a byte outside ASCII: the slug keeps the
  ideographs of the name but the last. The path of a request holds none.
\<close>

lemma find_Some_holds: "find P xs = Some x \<Longrightarrow> x \<in> set xs \<and> P x"
  by (induction xs) (auto split: if_splits)

lemma is_ascii_code [code]: "is_ascii c = (\<not> digit7 c)"
  by (cases c) (simp add: is_ascii_def)

lemma weather_routes_not_ascii:
  "list_all (\<lambda>(p, h). h = Discovery \<or> h = Health \<or> list_ex (\<lambda>c. \<not> is_ascii c) p) routes"
  by code_simp

lemma hex_digits_ascii:
  "list_all (\<lambda>d. is_ascii (hex_digit d)) [0, 1, 2, 3, 4, 5, 6, 7, 8, 9, 10, 11, 12, 13, 14, 15]"
  by (simp add: hex_digit_def is_ascii_def)

lemma hex_digit_ascii: "d < 16 \<Longrightarrow> is_ascii (hex_digit d)"
proof -
  assume "d < 16"
  then have "d \<in> set [0, 1, 2, 3, 4, 5, 6, 7, 8, 9, 10, 11, 12, 13, 14, 15 :: nat]"
    by (simp; arith)
  with hex_digits_ascii show ?thesis unfolding list_all_iff by blast
qed

lemma percent_encode_ascii: "list_all is_ascii (percent_encode s)"
proof -
  have "is_ascii (hex_digit (of_char c div 16)) \<and> is_ascii (hex_digit (of_char c mod 16))" for c :: char
  proof -
    have "(of_char c :: nat) < 256" by simp
    then have "(of_char c :: nat) div 16 < 16" by (intro less_mult_imp_div_less) simp
    moreover have "(of_char c :: nat) mod 16 < 16" by simp
    ultimately show ?thesis by (simp add: hex_digit_ascii)
  qed
  moreover have "is_ascii CHR ''%''" by (simp add: is_ascii_def)
  ultimately show ?thesis
    by (induction s) (simp_all add: percent_encode_def)
qed

lemma example_request_path_encoded: "example_request_path = percent_encode example_path"
  by code_simp

lemma encoded_routes_unmatched:
  "list_all (\<lambda>(p, h). h = Discovery \<or> h = Health \<or> dispatch exact_match (percent_encode p) = None) routes"
  by code_simp

lemma announced_slug_unmatched:
  "dispatch exact_match ''/api/weather/hsinchucounty'' = None"
  by code_simp

text \<open>
  Claim C3 fails on the code. Let the matcher be one that matches a route's path only
  to a request path in which every byte of the route's path that is outside ASCII
  occurs, as a matcher comparing the two texts does. Then a request, whose path is
  made of ASCII characters, is never dispatched to the handler of a weather route: it
  is answered by the handler of \<open>/\<close>, by the handler of \<open>/api/health\<close> or by the
  404 middleware, whatever the key is. With the key unset, the fetch does fail before
  any outbound call and the handler, where it runs, replies 500 with the
  configuration error (lemmas \<open>unset_key_no_call\<close> and \<open>handle_unset_key\<close>), but no
  request for a path \<open>/api/weather/{slug}\<close> gets that reply.
\<close>

theorem weather_routes_unreachable:
  assumes "\<And>p path. matches p path \<Longrightarrow> \<forall>c \<in> set p. \<not> is_ascii c \<longrightarrow> c \<in> set path"
    and "list_all is_ascii path"
  shows "(\<forall>name. dispatch matches path \<noteq> Some (Weather name))
     \<and> (app matches key axios_get now path = run_handler key axios_get now Discovery
        \<or> app matches key axios_get now path = run_handler key axios_get now Health
        \<or> app matches key axios_get now path =
            Inr \<lparr>statusCode = 404, body = JObj [(''error'', JStr not_found_label)]\<rparr>)"
proof -
  have cases: "dispatch matches path = None \<or> dispatch matches path = Some Discovery
      \<or> dispatch matches path = Some Health"
  proof (cases "find (\<lambda>(p, h). matches p path) routes")
    case None
    then show ?thesis by (simp add: dispatch_def)
  next
    case (Some ph)
    obtain p h where ph: "ph = (p, h)" by (cases ph)
    from find_Some_holds [OF Some] ph have mem: "(p, h) \<in> set routes" and m: "matches p path"
      by simp_all
    from weather_routes_not_ascii mem
    have "h = Discovery \<or> h = Health \<or> list_ex (\<lambda>c. \<not> is_ascii c) p"
      unfolding list_all_iff by blast
    moreover have "\<not> list_ex (\<lambda>c. \<not> is_ascii c) p"
    proof
      assume "list_ex (\<lambda>c. \<not> is_ascii c) p"
      then obtain c where c: "c \<in> set p" "\<not> is_ascii c"
        unfolding list_ex_iff by blast
      with assms(1) [OF m] have "c \<in> set path" by blast
      with assms(2) have "is_ascii c" unfolding list_all_iff by blast
      with c(2) show False ..
    qed
    ultimately have "h = Discovery \<or> h = Health" by blast
    with Some ph show ?thesis by (auto simp: dispatch_def)
  qed
  then have 1: "\<forall>name. dispatch matches path \<noteq> Some (Weather name)" by auto
  from cases have 2: "app matches key axios_get now path = run_handler key axios_get now Discovery
        \<or> app matches key axios_get now path = run_handler key axios_get now Health
        \<or> app matches key axios_get now path =
            Inr \<lparr>statusCode = 404, body = JObj [(''error'', JStr not_found_label)]\<rparr>"
    by (auto simp: app_def)
  from 1 2 show ?thesis ..
qed

text \<open>
  The theorem at the literal matcher and at the request for the path that the
  discovery document lists for the first configured name: with the key unset the reply
  is the 404 of the last middleware. The same holds of the path with the slug that the
  comment of line 160 announces.
\<close>

theorem weather_routes_unreachable_witness:
  "example_request_path = percent_encode example_path
   \<and> (\<forall>name. dispatch exact_match example_request_path \<noteq> Some (Weather name))
   \<and> app exact_match None payload_client 0 example_request_path =
       Inr \<lparr>statusCode = 404, body = JObj [(''error'', JStr not_found_label)]\<rparr>
   \<and> app exact_match None payload_client 0 ''/api/weather/hsinchucounty'' =
       Inr \<lparr>statusCode = 404, body = JObj [(''error'', JStr not_found_label)]\<rparr>"
proof -
  have m: "\<And>p path. exact_match p path \<Longrightarrow> \<forall>c \<in> set p. \<not> is_ascii c \<longrightarrow> c \<in> set path"
    by (simp add: exact_match_def)
  have a: "list_all is_ascii example_request_path"
    using percent_encode_ascii [of example_path] by (simp add: example_request_path_encoded)
  have none: "dispatch exact_match example_request_path = None"
    by code_simp
  from weather_routes_unreachable [of exact_match example_request_path None payload_client 0, OF m a]
  have "\<forall>name. dispatch exact_match example_request_path \<noteq> Some (Weather name)"
    by (rule conjunct1)
  with none announced_slug_unmatched example_request_path_encoded show ?thesis
    by (simp add: app_def)
qed

subsection \<open>Unmatched paths\<close>

text \<open>
  Claim C8, as the code has it. A request whose path matches the path of no registered
  route is answered 404 with the body \<open>{error: not_found_label}\<close>. The label is the
  text of line 196, not the text \<open>not found\<close>.
\<close>

theorem unmatched_path_reply:
  assumes "\<forall>p \<in> set (map fst routes). \<not> matches p path"
  shows "app matches key client now path =
     Inr \<lparr>statusCode = 404, body = JObj [(''error'', JStr not_found_label)]\<rparr>"
proof -
  from assms have "find (\<lambda>(p, h). matches p path) routes = None"
    by (force simp: find_None_iff)
  then show ?thesis by (simp add: app_def dispatch_def)
qed

lemma unknown_path_unmatched:
  "\<forall>p \<in> set (map fst routes). \<not> exact_match p ''/api/weather/unknown''"
  by code_simp

theorem unmatched_path_reply_witness:
  "app exact_match None payload_client 0 ''/api/weather/unknown'' =
     Inr \<lparr>statusCode = 404, body = JObj [(''error'', JStr not_found_label)]\<rparr>"
  using unmatched_path_reply [of exact_match "''/api/weather/unknown''", OF unknown_path_unmatched] .

lemma dispatch_unknown_path: "dispatch exact_match ''/api/weather/unknown'' = None"
  by code_simp

text \<open>
  Where the claim as stated fails: at the path \<open>/api/weather/unknown\<close> the \<open>error\<close>
  member is not the text \<open>not found\<close>.
\<close>

theorem unmatched_path_reply_counterexample:
  "app exact_match None payload_client 0 ''/api/weather/unknown'' =
     Inr \<lparr>statusCode = 404, body = JObj [(''error'', JStr not_found_label)]\<rparr>
   \<and> not_found_label \<noteq> ''not found''"
  using dispatch_unknown_path labels_differ(3) by (simp add: app_def)

subsection \<open>The discovery document\<close>

lemma root_registered: "(''/'', Discovery) \<in> set routes"
  by (simp add: routes_def)

text \<open>
  Claim C9. The handler registered at \<open>/\<close> replies with the \<open>endpoints\<close> object, and for
  every configured name the path that object lists under the name is the path derived
  from the name by replacing U+7E23 with \<open>county\<close>, U+5E02 with \<open>city\<close> and
  lower-casing, which is the path under which the route table holds the handler of
  that name, before any other route of that path.
\<close>

theorem discovery_matches_routes:
  assumes "name \<in> set TAIWAN_CITIES"
  shows "(''/'', Discovery) \<in> set routes
     \<and> run_handler key client now Discovery =
       Inr \<lparr>statusCode = 200,
            body = JObj [(''message'', JStr welcome_message),
                         (''endpoints'', JObj discovery_endpoints)]\<rparr>
     \<and> map_of discovery_endpoints name =
         Some (JStr (''/api/weather/''
                     @ toLowerCase (replace_js (replace_js name xian ''county'') shi ''city'')))
     \<and> find (\<lambda>(p, h). p = ''/api/weather/''
                     @ toLowerCase (replace_js (replace_js name xian ''county'') shi ''city'')) routes =
         Some (''/api/weather/''
                     @ toLowerCase (replace_js (replace_js name xian ''county'') shi ''city''),
               Weather name)"
proof -
  have "run_handler key client now Discovery =
       Inr \<lparr>statusCode = 200,
            body = JObj [(''message'', JStr welcome_message),
                         (''endpoints'', JObj discovery_endpoints)]\<rparr>"
    by (simp add: run_handler_def)
  moreover from discovery_lookup_all assms
  have "map_of discovery_endpoints name =
         Some (JStr (''/api/weather/''
                     @ toLowerCase (replace_js (replace_js name xian ''county'') shi ''city'')))"
    by (simp add: list_all_iff)
  moreover note routes_lookup [OF assms] root_registered
  ultimately show ?thesis by simp
qed

theorem discovery_matches_routes_witness:
  "map_of discovery_endpoints example_city = Some (JStr example_path)
   \<and> find (\<lambda>(p, h). p = example_path) routes = Some (example_path, Weather example_city)"
  using discovery_matches_routes [OF example_city_configured, of None payload_client 0]
  by (simp add: example_path_eq)

subsection \<open>The classification of the caught error\<close>




section \<open>The health endpoint and its timestamp\<close>

subsection \<open>Years and days\<close>

text \<open>
  Division by a positive constant, by its quotient and remainder; then the length of a
  year as the difference of two year starts, and the year found by the climb.
\<close>

lemma div_bounds:
  fixes a n :: int
  assumes "0 < n"
  shows "n * (a div n) \<le> a" and "a < n * (a div n) + n"
proof -
  have "n * (a div n) + a mod n = a" by (rule mult_div_mod_eq)
  moreover have "0 \<le> a mod n" "a mod n < n" using assms by simp_all
  ultimately show "n * (a div n) \<le> a" and "a < n * (a div n) + n" by linarith+
qed

lemma div_succ:
  fixes a n :: int
  assumes "0 < n"
  shows "(a + 1) div n = a div n + (if (a + 1) mod n = 0 then 1 else 0)"
proof -
  have eq: "n * ((a + 1) div n) + (a + 1) mod n = a + 1" by (rule mult_div_mod_eq)
  have r: "0 \<le> (a + 1) mod n" "(a + 1) mod n < n" using assms by simp_all
  show ?thesis
  proof (cases "(a + 1) mod n = 0")
    case True
    define q where "q = (a + 1) div n"
    from eq True have "n * q = a + 1" by (simp add: q_def)
    then have "a = n * (q - 1) + (n - 1)"
      by (simp add: right_diff_distrib)
    then have "a div n = q - 1"
      by (rule int_div_pos_eq) (use assms in simp_all)
    with True show ?thesis by (simp add: q_def)
  next
    case False
    with r have pos: "0 \<le> (a + 1) mod n - 1" by linarith
    from eq have "a = n * ((a + 1) div n) + ((a + 1) mod n - 1)" by linarith
    then have "a div n = (a + 1) div n"
      by (rule int_div_pos_eq) (use pos r in simp_all)
    with False show ?thesis by simp
  qed
qed

lemma mod_shift:
  fixes y c n :: int
  shows "(y - c * n) mod n = y mod n"
proof -
  have "y - c * n = y + (- c) * n" by simp
  then show ?thesis by (simp only: mod_mult_self1)
qed

lemma leap_divisors:
  fixes y :: int
  shows "y mod 100 = 0 \<Longrightarrow> y mod 4 = 0" and "y mod 400 = 0 \<Longrightarrow> y mod 100 = 0"
proof -
  have "y mod 100 mod 4 = y mod 4" by (rule mod_mod_cancel) simp
  then show "y mod 100 = 0 \<Longrightarrow> y mod 4 = 0" by simp
  have "y mod 400 mod 100 = y mod 100" by (rule mod_mod_cancel) simp
  then show "y mod 400 = 0 \<Longrightarrow> y mod 100 = 0" by simp
qed

lemma DayFromYear_Suc: "DayFromYear (y + 1) = DayFromYear y + DaysInYear y"
proof -
  have m4: "(y - 1969 + 1) mod 4 = y mod 4"
    using mod_shift [of y 492 4] by simp
  have m100: "(y - 1901 + 1) mod 100 = y mod 100"
    using mod_shift [of y 19 100] by simp
  have m400: "(y - 1601 + 1) mod 400 = y mod 400"
    using mod_shift [of y 4 400] by simp
  have e4: "(y + 1 - 1969) div 4 = (y - 1969) div 4 + (if y mod 4 = 0 then 1 else 0)"
    using div_succ [of 4 "y - 1969"] m4 by (simp add: algebra_simps)
  have e100: "(y + 1 - 1901) div 100 = (y - 1901) div 100 + (if y mod 100 = 0 then 1 else 0)"
    using div_succ [of 100 "y - 1901"] m100 by (simp add: algebra_simps)
  have e400: "(y + 1 - 1601) div 400 = (y - 1601) div 400 + (if y mod 400 = 0 then 1 else 0)"
    using div_succ [of 400 "y - 1601"] m400 by (simp add: algebra_simps)
  define a where "a = (y - 1969) div 4"
  define b where "b = (y - 1901) div 100"
  define c where "c = (y - 1601) div 400"
  show ?thesis
    unfolding DayFromYear_def DaysInYear_def e4 e100 e400 a_def [symmetric] b_def [symmetric]
      c_def [symmetric]
    using leap_divisors [of y] by auto
qed

lemma DaysInYear_cases: "DaysInYear y = 365 \<or> DaysInYear y = 366"
  by (simp add: DaysInYear_def)

lemma year_climb_bounds:
  "DayFromYear y \<le> day \<Longrightarrow>
     DayFromYear (year_climb y day) \<le> day \<and> day < DayFromYear (year_climb y day + 1)"
proof (induction y day rule: year_climb.induct)
  case (1 y day)
  show ?case
  proof (cases "DayFromYear (y + 1) \<le> day")
    case True
    from "1.IH" [OF True True] True show ?thesis
      by (simp add: year_climb.simps [of y day])
  next
    case False
    with "1.prems" show ?thesis
      by (simp add: year_climb.simps [of y day])
  qed
qed

lemma DayFromYear_estimate:
  "DayFromYear (1969 + (if 0 \<le> d then d div 366 else d div 365)) \<le> d"
proof -
  define k where "k = (if 0 \<le> d then d div 366 else d div 365)"
  define a where "a = (1969 + k - 1969) div 4"
  define b where "b = (1969 + k - 1901) div 100"
  define c where "c = (1969 + k - 1601) div 400"
  have a: "4 * a \<le> 1969 + k - 1969"
    unfolding a_def by (rule div_bounds) simp
  have b: "1969 + k - 1901 < 100 * b + 100"
    unfolding b_def by (rule div_bounds) simp
  have c: "400 * c \<le> 1969 + k - 1601"
    unfolding c_def by (rule div_bounds) simp
  have k: "(0 \<le> d \<and> 0 \<le> k \<and> 366 * k \<le> d) \<or> (d < 0 \<and> k < 0 \<and> 365 * k \<le> d)"
  proof (cases "0 \<le> d")
    case True
    then have "0 \<le> d div 366" by simp
    moreover have "366 * (d div 366) \<le> d" by (rule div_bounds) simp
    ultimately show ?thesis using True by (simp add: k_def)
  next
    case False
    then have "d div 365 < 0" by (simp add: div_neg_pos_less0)
    moreover have "365 * (d div 365) \<le> d" by (rule div_bounds) simp
    ultimately show ?thesis using False by (simp add: k_def)
  qed
  from k have "365 * (1969 + k - 1970) + a - b + c \<le> d"
  proof
    assume "0 \<le> d \<and> 0 \<le> k \<and> 366 * k \<le> d"
    with a b c show ?thesis by simp
  next
    assume "d < 0 \<and> k < 0 \<and> 365 * k \<le> d"
    with a b c show ?thesis by simp
  qed
  then show ?thesis
    unfolding DayFromYear_def k_def [symmetric] a_def b_def c_def .
qed

lemma YearFromTime_bounds:
  "DayFromYear (YearFromTime t) \<le> Day t \<and> Day t < DayFromYear (YearFromTime t + 1)"
  unfolding YearFromTime_def by (rule year_climb_bounds [OF DayFromYear_estimate])

lemma DayWithinYear_range:
  "0 \<le> DayWithinYear t \<and> DayWithinYear t < 365 + InLeapYear t"
proof -
  have "DaysInYear (YearFromTime t) = 365 + InLeapYear t"
    using DaysInYear_cases [of "YearFromTime t"] by (auto simp: InLeapYear_def)
  with YearFromTime_bounds [of t] DayFromYear_Suc [of "YearFromTime t"] show ?thesis
    by (simp add: DayWithinYear_def)
qed

subsection \<open>The fields of a time value are in range\<close>

lemma InLeapYear_cases: "InLeapYear t = 0 \<or> InLeapYear t = 1"
  by (simp add: InLeapYear_def)

lemma MonthFromTime_range: "0 \<le> MonthFromTime t \<and> MonthFromTime t \<le> 11"
  by (simp add: MonthFromTime_def Let_def)

lemma DateFromTime_range: "1 \<le> DateFromTime t \<and> DateFromTime t \<le> 31"
proof -
  define d where "d = DayWithinYear t"
  define l where "l = InLeapYear t"
  from DayWithinYear_range [of t] have d: "0 \<le> d" "d < 365 + l"
    by (simp_all add: d_def l_def)
  from InLeapYear_cases [of t] have l: "l = 0 \<or> l = 1"
    by (simp add: l_def)
  show ?thesis
    unfolding DateFromTime_def MonthFromTime_def Let_def d_def [symmetric] l_def [symmetric]
    using d l by auto
qed

lemma time_fields_range:
  "0 \<le> HourFromTime t \<and> HourFromTime t < 24"
  "0 \<le> MinFromTime t \<and> MinFromTime t < 60"
  "0 \<le> SecFromTime t \<and> SecFromTime t < 60"
  "0 \<le> msFromTime t \<and> msFromTime t < 1000"
  by (simp_all add: HourFromTime_def MinFromTime_def SecFromTime_def msFromTime_def)

lemma Day_range:
  assumes "valid_time t"
  shows "- 100000000 \<le> Day t \<and> Day t \<le> 100000000"
proof -
  from assms have "t \<le> 8640000000000000" and "- 8640000000000000 \<le> t"
    by (simp_all add: valid_time_def)
  then have "t div 86400000 \<le> 8640000000000000 div 86400000"
    and "(- 8640000000000000) div 86400000 \<le> t div 86400000"
    by (intro zdiv_mono1; simp)+
  then show ?thesis by (simp add: Day_def msPerDay_def)
qed

lemma YearFromTime_range:
  assumes "valid_time t"
  shows "- 1000000 < YearFromTime t \<and> YearFromTime t < 1000000"
proof -
  define y where "y = YearFromTime t"
  define a where "a = (y - 1969) div 4"
  define b where "b = (y - 1901) div 100"
  define c where "c = (y - 1601) div 400"
  define a' where "a' = (y + 1 - 1969) div 4"
  define b' where "b' = (y + 1 - 1901) div 100"
  define c' where "c' = (y + 1 - 1601) div 400"
  have a: "y - 1969 < 4 * a + 4" unfolding a_def by (rule div_bounds) simp
  have b: "100 * b \<le> y - 1901" unfolding b_def by (rule div_bounds) simp
  have c: "y - 1601 < 400 * c + 400" unfolding c_def by (rule div_bounds) simp
  have a': "4 * a' \<le> y + 1 - 1969" unfolding a'_def by (rule div_bounds) simp
  have b': "y + 1 - 1901 < 100 * b' + 100" unfolding b'_def by (rule div_bounds) simp
  have c': "400 * c' \<le> y + 1 - 1601" unfolding c'_def by (rule div_bounds) simp
  from YearFromTime_bounds [of t]
  have lo: "365 * (y - 1970) + a - b + c \<le> Day t"
    and hi: "Day t < 365 * (y + 1 - 1970) + a' - b' + c'"
    by (simp_all add: DayFromYear_def y_def a_def b_def c_def a'_def b'_def c'_def)
  from Day_range [OF assms] have d: "- 100000000 \<le> Day t" "Day t \<le> 100000000"
    by simp_all
  have "y < 1000000" using lo d(2) a b c by simp
  moreover have "- 1000000 < y" using hi d(1) a' b' c' by simp
  ultimately show ?thesis by (simp add: y_def)
qed

subsection \<open>Digits\<close>

lemma length_pad: "length (pad w n) = w"
  by (induction w arbitrary: n) simp_all

lemma of_char_digit_char: "d < 10 \<Longrightarrow> of_char (digit_char d) = 48 + d"
  by (simp add: digit_char_def)

lemma is_digit_digit_char: "d < 10 \<Longrightarrow> is_digit (digit_char d)"
  by (simp add: is_digit_def of_char_digit_char)

lemma digit_char_not_sign:
  assumes "d < 10"
  shows "digit_char d \<noteq> CHR ''+''" and "digit_char d \<noteq> CHR ''-''"
proof -
  have "(of_char (digit_char d) :: nat) \<noteq> of_char CHR ''+''"
    and "(of_char (digit_char d) :: nat) \<noteq> of_char CHR ''-''"
    using assms by (simp_all add: of_char_digit_char)
  then show "digit_char d \<noteq> CHR ''+''" and "digit_char d \<noteq> CHR ''-''"
    by auto
qed

lemma list_all_pad: "list_all is_digit (pad w n)"
  by (induction w arbitrary: n) (simp_all add: is_digit_digit_char)

lemma digits_value_append:
  "digits_value (xs @ ys) acc = digits_value ys (digits_value xs acc)"
  by (induction xs arbitrary: acc) simp_all

lemma digits_value_pad: "digits_value (pad w n) acc = acc * 10 ^ w + n mod 10 ^ w"
proof (induction w arbitrary: n acc)
  case 0
  show ?case by simp
next
  case (Suc w)
  have "n mod (10 * 10 ^ w) = 10 * (n div 10 mod 10 ^ w) + n mod 10"
    by (rule mod_mult2_eq)
  with Suc [of "n div 10" acc] show ?case
    by (simp add: digits_value_append of_char_digit_char algebra_simps)
qed

lemma read_number_pad:
  "n < 10 ^ w \<Longrightarrow> read_number w (pad w n @ rest) = Some (n, rest)"
  by (simp add: read_number_def length_pad list_all_pad digits_value_pad)

lemma expect_Cons: "expect c (c # rest) = Some rest"
  by (simp add: expect_def)

lemma pad_head:
  "0 < w \<Longrightarrow> \<exists>d cs. d < 10 \<and> pad w n = digit_char d # cs"
proof (induction w arbitrary: n)
  case 0
  then show ?case by simp
next
  case (Suc w)
  show ?case
  proof (cases "w = 0")
    case True
    have "n mod 10 < 10 \<and> pad (Suc w) n = digit_char (n mod 10) # []"
      using True by simp
    then show ?thesis by blast
  next
    case False
    with Suc.IH [of "n div 10"] obtain d cs
      where "d < 10" "pad w (n div 10) = digit_char d # cs" by auto
    then have "d < 10 \<and> pad (Suc w) n = digit_char d # (cs @ [digit_char (n mod 10)])"
      by simp
    then show ?thesis by blast
  qed
qed

subsection \<open>Reading the timestamp back\<close>

lemma read_year_year_string:
  assumes "- 1000000 < y" and "y < 1000000"
  shows "read_year (year_string y @ rest) = Some (y, rest)"
proof (cases "0 \<le> y \<and> y \<le> 9999")
  case True
  then have "0 \<le> y" and "y \<le> 9999" by simp_all
  then have "nat y < 10000" by linarith
  then have n: "nat y < 10 ^ 4" by simp
  have "read_number 4 (pad 4 (nat y) @ rest) = Some (nat y, rest)"
    by (rule read_number_pad [OF n])
  moreover obtain c cs where cs: "pad 4 (nat y) = c # cs" "c \<noteq> CHR ''+''" "c \<noteq> CHR ''-''"
    using pad_head [of 4 "nat y"] digit_char_not_sign by auto
  ultimately show ?thesis
    using True by (simp add: read_year_def year_string_def)
next
  case False
  from assms have "nat \<bar>y\<bar> < 1000000" by linarith
  then have n: "nat \<bar>y\<bar> < 10 ^ 6" by simp
  have num: "read_number 6 (pad 6 (nat \<bar>y\<bar>) @ rest) = Some (nat \<bar>y\<bar>, rest)"
    by (rule read_number_pad [OF n])
  show ?thesis
  proof (cases "y < 0")
    case True
    with num False show ?thesis
      by (simp add: read_year_def year_string_def)
  next
    case False
    with num \<open>\<not> (0 \<le> y \<and> y \<le> 9999)\<close> show ?thesis
      by (simp add: read_year_def year_string_def)
  qed
qed

lemma parse_toISOString:
  assumes "valid_time t"
  shows "parse_iso8601 (toISOString t) =
     Some (YearFromTime t, nat (MonthFromTime t + 1), nat (DateFromTime t),
           nat (HourFromTime t), nat (MinFromTime t), nat (SecFromTime t),
           nat (msFromTime t))"
proof -
  note y = YearFromTime_range [OF assms]
  from MonthFromTime_range [of t]
  have "0 \<le> MonthFromTime t" and "MonthFromTime t \<le> 11" by simp_all
  then have mo: "nat (MonthFromTime t + 1) < 10 ^ 2" "1 \<le> nat (MonthFromTime t + 1)"
      "nat (MonthFromTime t + 1) \<le> 12"
    by simp_all
  from DateFromTime_range [of t]
  have "1 \<le> DateFromTime t" and "DateFromTime t \<le> 31" by simp_all
  then have da: "nat (DateFromTime t) < 10 ^ 2" "1 \<le> nat (DateFromTime t)"
      "nat (DateFromTime t) \<le> 31"
    by simp_all
  from time_fields_range(1) [of t]
  have "0 \<le> HourFromTime t" and "HourFromTime t < 24" by simp_all
  then have ho: "nat (HourFromTime t) < 10 ^ 2" "nat (HourFromTime t) \<le> 23"
    by simp_all
  from time_fields_range(2) [of t]
  have "0 \<le> MinFromTime t" and "MinFromTime t < 60" by simp_all
  then have mi: "nat (MinFromTime t) < 10 ^ 2" "nat (MinFromTime t) \<le> 59"
    by simp_all
  from time_fields_range(3) [of t]
  have "0 \<le> SecFromTime t" and "SecFromTime t < 60" by simp_all
  then have se: "nat (SecFromTime t) < 10 ^ 2" "nat (SecFromTime t) \<le> 59"
    by simp_all
  from time_fields_range(4) [of t]
  have "0 \<le> msFromTime t" and "msFromTime t < 1000" by simp_all
  then have ms: "nat (msFromTime t) < 10 ^ 3"
    by simp
  show ?thesis
    unfolding parse_iso8601_def toISOString_def
    using mo(2,3) da(2,3) ho(2) mi(2) se(2)
    by (simp add: read_year_year_string y read_number_pad [OF mo(1)] read_number_pad [OF da(1)]
        read_number_pad [OF ho(1)] read_number_pad [OF mi(1)] read_number_pad [OF se(1)]
        read_number_pad [OF ms] expect_Cons)
qed

subsection \<open>The health endpoint\<close>

lemma health_registered: "(''/api/health'', Health) \<in> set routes"
  by (simp add: routes_def)

lemma dispatch_health: "dispatch exact_match ''/api/health'' = Some Health"
  by code_simp

lemma example_time_valid: "valid_time 1730563200123"
  by (simp add: valid_time_def)

lemma example_time_string: "toISOString 1730563200123 = ''2024-11-02T16:00:00.123Z''"
  by code_simp

lemma example_time_fields:
  "(YearFromTime 1730563200123, nat (MonthFromTime 1730563200123 + 1),
    nat (DateFromTime 1730563200123), nat (HourFromTime 1730563200123),
    nat (MinFromTime 1730563200123), nat (SecFromTime 1730563200123),
    nat (msFromTime 1730563200123)) = (2024, 11, 2, 16, 0, 0, 123)"
  by code_simp

text \<open>
  Claim C7. The handler of \<open>/api/health\<close> is registered, and whatever the API key and
  the HTTP client are, a request that is dispatched to it is answered 200 with
  \<open>{status: "OK", timestamp}\<close>, where the timestamp is \<open>toISOString\<close> of the clock's
  time value; and that text is read back by \<^const>\<open>parse_iso8601\<close> as the date and
  time fields of the time value.
\<close>

theorem health_reply:
  assumes "valid_time now"
    and "dispatch matches path = Some Health"
  shows "(''/api/health'', Health) \<in> set routes
     \<and> app matches key client now path =
       Inr \<lparr>statusCode = 200,
            body = JObj [(''status'', JStr ''OK''), (''timestamp'', JStr (toISOString now))]\<rparr>
     \<and> parse_iso8601 (toISOString now) =
         Some (YearFromTime now, nat (MonthFromTime now + 1), nat (DateFromTime now),
               nat (HourFromTime now), nat (MinFromTime now), nat (SecFromTime now),
               nat (msFromTime now))"
  using health_registered parse_toISOString [OF assms(1)] assms(2)
  by (simp add: app_def run_handler_def)

theorem health_reply_witness:
  "app exact_match None payload_client 1730563200123 ''/api/health'' =
       Inr \<lparr>statusCode = 200,
            body = JObj [(''status'', JStr ''OK''),
                         (''timestamp'', JStr ''2024-11-02T16:00:00.123Z'')]\<rparr>
     \<and> parse_iso8601 ''2024-11-02T16:00:00.123Z'' = Some (2024, 11, 2, 16, 0, 0, 123)"
  using health_reply [OF example_time_valid dispatch_health, of None payload_client]
    example_time_fields
  by (simp add: example_time_string)

end
